theory Spec2Isabelle
  imports Complex_Main
begin

section \<open>The WFI pointing helper \<open>PointWFI\<close> of the Roman I-Sim notebook\<close>

text \<open>
  The notebook defines one class, \<open>PointWFI\<close>, a dataclass with the fields \<open>ra\<close>,
  \<open>dec\<close> and \<open>roll_angle\<close>, a \<open>__post_init__\<close> method, the helper
  \<open>_update_boresight_position\<close> and the method \<open>dither\<close>. All arithmetic is done by
  the PySIAF library, which the class calls and which is not part of the repository.
  The class itself only stores values, calls the library and assigns the results.
\<close>

subsection \<open>Values\<close>

text \<open>
  A Python \<open>float\<close>: a real number, or one of the three non-finite values. The class
  performs no arithmetic on its numbers, so no rounding is modelled.
\<close>

datatype pyfloat = Finite real | PosInf | NegInf | NaN

fun is_finite :: "pyfloat \<Rightarrow> bool" where
  "is_finite (Finite x) = True"
| "is_finite PosInf = False"
| "is_finite NegInf = False"
| "is_finite NaN = False"

text \<open>\<open>-90 <= dec <= 90\<close>; every comparison with NaN is false.\<close>

fun dec_in_range :: "pyfloat \<Rightarrow> bool" where
  "dec_in_range (Finite x) = (- 90 \<le> x \<and> x \<le> 90)"
| "dec_in_range PosInf = False"
| "dec_in_range NegInf = False"
| "dec_in_range NaN = False"

text \<open>
  The exceptions a call can end with. \<open>PointWFI\<close> has no \<open>raise\<close> statement: an
  exception can only come out of a library call.
\<close>

datatype error = InvalidArgument | LibraryError

subsection \<open>The library, as the class uses it\<close>

text \<open>
  The part of PySIAF the class calls, taken as a parameter. \<open>'m\<close> is the library's
  type of attitude matrices.
  \<^item> \<open>V2Ref\<close>, \<open>V3Ref\<close>: the attributes of the aperture \<open>pysiaf.Siaf('Roman')['WFI_CEN']\<close>;
  \<^item> \<open>attitude\<close>, \<open>posangle\<close>: the functions of \<open>pysiaf.utils.rotations\<close>;
  \<^item> \<open>tel_to_sky\<close>, \<open>idl_to_sky\<close>: the aperture's methods. They transform with the matrix
    last given to the aperture by \<open>set_attitude_matrix\<close>; here that matrix is their
    first argument.
  Every call either returns or raises (\<open>Inl\<close>).
\<close>

record 'm pysiaf =
  V2Ref :: pyfloat
  V3Ref :: pyfloat
  attitude :: "pyfloat \<Rightarrow> pyfloat \<Rightarrow> pyfloat \<Rightarrow> pyfloat \<Rightarrow> pyfloat \<Rightarrow> error + 'm"
  tel_to_sky :: "'m \<Rightarrow> pyfloat \<Rightarrow> pyfloat \<Rightarrow> error + pyfloat \<times> pyfloat"
  idl_to_sky :: "'m \<Rightarrow> pyfloat \<Rightarrow> pyfloat \<Rightarrow> error + pyfloat \<times> pyfloat"
  posangle :: "'m \<Rightarrow> pyfloat \<Rightarrow> pyfloat \<Rightarrow> error + pyfloat"

subsection \<open>The class\<close>

text \<open>
  The attributes of an instance. \<open>siaf_aperture\<close> is the aperture object the instance
  owns; its only part that changes is the attitude matrix installed by
  \<open>set_attitude_matrix\<close>, so the field holds that matrix. \<open>tel_ra\<close>, \<open>tel_dec\<close> and
  \<open>tel_roll\<close> do not exist until \<open>_update_boresight_position\<close> assigns them.
\<close>

record 'm PointWFI =
  ra :: pyfloat
  dec :: pyfloat
  roll_angle :: pyfloat
  siaf_aperture :: 'm
  v2_ref :: pyfloat
  v3_ref :: pyfloat
  attitude_matrix :: 'm
  tel_ra :: "pyfloat option"
  tel_dec :: "pyfloat option"
  tel_roll :: "pyfloat option"

text \<open>
  A method call on an instance either returns or raises; in both cases the instance is
  left with whatever assignments were executed.
\<close>

datatype 's outcome = Returned 's | Raised error 's

fun state_after :: "'s outcome \<Rightarrow> 's" where
  "state_after (Returned s) = s"
| "state_after (Raised e s) = s"

text \<open>
  \<^verbatim>\<open>
  def _update_boresight_position(self):
      boresight_sky = self.siaf_aperture.tel_to_sky(0, 0)
      self.tel_ra = boresight_sky[0]
      self.tel_dec = boresight_sky[1]
      self.attitude_matrix = pysiaf.utils.rotations.attitude(0, 0, self.tel_ra, self.tel_dec, self.roll_angle)
      self.tel_roll = pysiaf.utils.rotations.posangle(self.attitude_matrix, 0, 0)
  \<close>
\<close>

definition update_boresight_position :: "'m pysiaf \<Rightarrow> 'm PointWFI \<Rightarrow> 'm PointWFI outcome" where
  "update_boresight_position L self =
     (case tel_to_sky L (siaf_aperture self) (Finite 0) (Finite 0) of
        Inl e \<Rightarrow> Raised e self
      | Inr boresight_sky \<Rightarrow>
          (let self1 = self\<lparr>tel_ra := Some (fst boresight_sky), tel_dec := Some (snd boresight_sky)\<rparr> in
           case attitude L (Finite 0) (Finite 0) (fst boresight_sky) (snd boresight_sky) (roll_angle self1) of
             Inl e \<Rightarrow> Raised e self1
           | Inr m \<Rightarrow>
               (let self2 = self1\<lparr>attitude_matrix := m\<rparr> in
                case posangle L (attitude_matrix self2) (Finite 0) (Finite 0) of
                  Inl e \<Rightarrow> Raised e self2
                | Inr pa \<Rightarrow> Returned (self2\<lparr>tel_roll := Some pa\<rparr>))))"

text \<open>
  \<^verbatim>\<open>
  def __post_init__(self) -> None:
      self.siaf_aperture = pysiaf.Siaf('Roman')['WFI_CEN']
      self.v2_ref = self.siaf_aperture.V2Ref
      self.v3_ref = self.siaf_aperture.V3Ref
      self.attitude_matrix = pysiaf.utils.rotations.attitude(self.v2_ref, self.v3_ref, self.ra,
                                      self.dec, self.roll_angle)
      self.siaf_aperture.set_attitude_matrix(self.attitude_matrix)
      self._update_boresight_position()
  \<close>
  An exception inside \<open>__post_init__\<close> leaves the constructor call without a value: no
  instance is bound.
\<close>

definition post_init :: "'m pysiaf \<Rightarrow> pyfloat \<Rightarrow> pyfloat \<Rightarrow> pyfloat \<Rightarrow> error + 'm PointWFI" where
  "post_init L ra0 dec0 roll0 =
     (case attitude L (V2Ref L) (V3Ref L) ra0 dec0 roll0 of
        Inl e \<Rightarrow> Inl e
      | Inr m \<Rightarrow>
          (case update_boresight_position L
                  \<lparr>ra = ra0, dec = dec0, roll_angle = roll0, siaf_aperture = m,
                   v2_ref = V2Ref L, v3_ref = V3Ref L, attitude_matrix = m,
                   tel_ra = None, tel_dec = None, tel_roll = None\<rparr> of
             Raised e self \<Rightarrow> Inl e
           | Returned self \<Rightarrow> Inr self))"

text \<open>
  The dataclass-generated constructor: each of the three fields has a default
  (\<open>ra: float = 80.0\<close>, \<open>dec: float = 30.0\<close>, \<open>roll_angle: float = 0.0\<close>), used when the
  argument is left out (\<open>None\<close> here), and \<open>__post_init__\<close> runs after the fields are set.
\<close>

definition Construct ::
  "'m pysiaf \<Rightarrow> pyfloat option \<Rightarrow> pyfloat option \<Rightarrow> pyfloat option \<Rightarrow> error + 'm PointWFI" where
  "Construct L ra_arg dec_arg roll_arg =
     post_init L (case ra_arg of None \<Rightarrow> Finite 80 | Some r \<Rightarrow> r)
                 (case dec_arg of None \<Rightarrow> Finite 30 | Some d \<Rightarrow> d)
                 (case roll_arg of None \<Rightarrow> Finite 0 | Some p \<Rightarrow> p)"

text \<open>
  \<^verbatim>\<open>
  def dither(self, x_offset, y_offset) -> None:
      new_ra, new_dec = self.siaf_aperture.idl_to_sky(x_offset, y_offset)
      self.attitude_matrix = pysiaf.utils.rotations.attitude(self.v2_ref, self.v3_ref, new_ra,
                                      new_dec, self.roll_angle)
      self.siaf_aperture.set_attitude_matrix(self.attitude_matrix)
      self._update_boresight_position()
      self.ra = new_ra
      self.dec = new_dec
  \<close>
\<close>

definition dither :: "'m pysiaf \<Rightarrow> 'm PointWFI \<Rightarrow> pyfloat \<Rightarrow> pyfloat \<Rightarrow> 'm PointWFI outcome" where
  "dither L self x_offset y_offset =
     (case idl_to_sky L (siaf_aperture self) x_offset y_offset of
        Inl e \<Rightarrow> Raised e self
      | Inr (new_ra, new_dec) \<Rightarrow>
          (case attitude L (v2_ref self) (v3_ref self) new_ra new_dec (roll_angle self) of
             Inl e \<Rightarrow> Raised e self
           | Inr m \<Rightarrow>
               (case update_boresight_position L (self\<lparr>attitude_matrix := m, siaf_aperture := m\<rparr>) of
                  Raised e self' \<Rightarrow> Raised e self'
                | Returned self' \<Rightarrow> Returned (self'\<lparr>ra := new_ra, dec := new_dec\<rparr>))))"

text \<open>The position accessor of the specification: the attributes \<open>ra\<close> and \<open>dec\<close>.\<close>

definition CurrentPosition :: "'m PointWFI \<Rightarrow> pyfloat \<times> pyfloat" where
  "CurrentPosition self = (ra self, dec self)"

text \<open>
  A caller making one \<open>dither\<close> call after another on the same instance, going on after
  a call that raised.
\<close>

fun dithers :: "'m pysiaf \<Rightarrow> 'm PointWFI \<Rightarrow> (pyfloat \<times> pyfloat) list \<Rightarrow> 'm PointWFI" where
  "dithers L self [] = self"
| "dithers L self ((x, y) # rest) = dithers L (state_after (dither L self x y)) rest"

text \<open>
  The states an instance is in after a constructor call that returned and any number of
  \<open>dither\<close> calls that returned.
\<close>

inductive reachable :: "'m pysiaf \<Rightarrow> 'm PointWFI \<Rightarrow> bool" for L :: "'m pysiaf" where
  constructed: "Construct L ra_arg dec_arg roll_arg = Inr s \<Longrightarrow> reachable L s"
| dithered: "reachable L s \<Longrightarrow> dither L s x y = Returned s' \<Longrightarrow> reachable L s'"

text \<open>
  What holds of an instance between calls: the reference point is the aperture's, the
  aperture's matrix is the one built for the stored target position, and the boresight
  fields were computed from it.
\<close>

definition consistent :: "'m pysiaf \<Rightarrow> 'm PointWFI \<Rightarrow> bool" where
  "consistent L s \<longleftrightarrow>
     v2_ref s = V2Ref L \<and> v3_ref s = V3Ref L \<and>
     attitude L (v2_ref s) (v3_ref s) (ra s) (dec s) (roll_angle s) = Inr (siaf_aperture s) \<and>
     (case (tel_ra s, tel_dec s, tel_roll s) of
        (Some tr, Some td, Some tp) \<Rightarrow>
          tel_to_sky L (siaf_aperture s) (Finite 0) (Finite 0) = Inr (tr, td) \<and>
          attitude L (Finite 0) (Finite 0) tr td (roll_angle s) = Inr (attitude_matrix s) \<and>
          posangle L (attitude_matrix s) (Finite 0) (Finite 0) = Inr tp
      | _ \<Rightarrow> False)"

text \<open>
  The exceptions the library can raise at all, on any arguments: the only exceptions a
  call of the class can end with.
\<close>

definition library_errors :: "'m pysiaf \<Rightarrow> error set" where
  "library_errors L =
     {e. (\<exists>v2 v3 r d p. attitude L v2 v3 r d p = Inl e) \<or>
         (\<exists>m a b. tel_to_sky L m a b = Inl e) \<or>
         (\<exists>m x y. idl_to_sky L m x y = Inl e) \<or>
         (\<exists>m a b. posangle L m a b = Inl e)}"

text \<open>
  The library's anchoring at the stored position of \<open>s\<close>: the matrix it builds for
  \<open>(V2Ref, V3Ref, ra, dec, roll_angle)\<close> sends the ideal offset \<open>(0, 0)\<close> back to
  \<open>(ra, dec)\<close>. The comment in \<open>dither\<close> relies on it: ``The WFI_CEN aperture is defined
  such that the reference pixel position has ideal coodinates (X, Y) = (0, 0).''
\<close>

definition anchored :: "'m pysiaf \<Rightarrow> 'm PointWFI \<Rightarrow> bool" where
  "anchored L s \<longleftrightarrow>
     (case attitude L (V2Ref L) (V3Ref L) (ra s) (dec s) (roll_angle s) of
        Inl e \<Rightarrow> False
      | Inr m \<Rightarrow> idl_to_sky L m (Finite 0) (Finite 0) = Inr (ra s, dec s))"

subsection \<open>Two libraries to run the class on\<close>

text \<open>
  PySIAF's own code is not in the repository. To run the class on concrete inputs, two
  small libraries stand in for it. Both work on a flat sky: an attitude is the five
  numbers it was built from, a point \<open>a\<close> arcseconds from the anchor lies \<open>a / 3600\<close>
  degrees from the anchor's sky position, and the position angle is the same everywhere.
  The reference point is one degree and minus half a degree off the boresight.
  Arithmetic involving a non-finite value gives NaN, and no call of \<open>flat_library\<close> raises.
\<close>

type_synonym anchor = "pyfloat \<times> pyfloat \<times> pyfloat \<times> pyfloat \<times> pyfloat"

fun shifted :: "pyfloat \<Rightarrow> pyfloat \<Rightarrow> pyfloat" where
  "shifted (Finite c) (Finite a) = Finite (c + a / 3600)"
| "shifted c a = NaN"

fun minus_f :: "pyfloat \<Rightarrow> pyfloat \<Rightarrow> pyfloat" where
  "minus_f (Finite a) (Finite b) = Finite (a - b)"
| "minus_f a b = NaN"

definition flat_library :: "anchor pysiaf" where
  "flat_library =
     \<lparr>V2Ref = Finite 3600, V3Ref = Finite (- 1800),
      attitude = (\<lambda>v2 v3 r d p. Inr (v2, v3, r, d, p)),
      tel_to_sky = (\<lambda>(v2, v3, r, d, p) a b. Inr (shifted r (minus_f a v2), shifted d (minus_f b v3))),
      idl_to_sky = (\<lambda>(v2, v3, r, d, p) x y. Inr (shifted r x, shifted d y)),
      posangle = (\<lambda>(v2, v3, r, d, p) a b. Inr p)\<rparr>"

text \<open>
  The same library with argument checks added: \<open>attitude\<close> rejects a declination outside
  \<open>[-90, 90]\<close> and \<open>idl_to_sky\<close> rejects a non-finite offset.
\<close>

definition checking_library :: "anchor pysiaf" where
  "checking_library =
     flat_library
       \<lparr>attitude := (\<lambda>v2 v3 r d p. if dec_in_range d then Inr (v2, v3, r, d, p)
                                    else Inl InvalidArgument),
        idl_to_sky := (\<lambda>m x y. if is_finite x \<and> is_finite y then idl_to_sky flat_library m x y
                                else Inl InvalidArgument)\<rparr>"

text \<open>
  The instance \<open>PointWFI(ra=r, dec=d, roll_angle=0.0)\<close> over these libraries, and the
  instance left by \<open>dither(nan, 0)\<close> on \<open>PointWFI(ra=80.0, dec=30.0, roll_angle=0.0)\<close>.
\<close>

definition flat_state :: "real \<Rightarrow> real \<Rightarrow> anchor PointWFI" where
  "flat_state r d =
     \<lparr>ra = Finite r, dec = Finite d, roll_angle = Finite 0,
      siaf_aperture = (Finite 3600, Finite (- 1800), Finite r, Finite d, Finite 0),
      v2_ref = Finite 3600, v3_ref = Finite (- 1800),
      attitude_matrix = (Finite 0, Finite 0, Finite (r - 1), Finite (d + 1 / 2), Finite 0),
      tel_ra = Some (Finite (r - 1)), tel_dec = Some (Finite (d + 1 / 2)),
      tel_roll = Some (Finite 0)\<rparr>"

definition flat_nan_state :: "anchor PointWFI" where
  "flat_nan_state =
     \<lparr>ra = NaN, dec = Finite 30, roll_angle = Finite 0,
      siaf_aperture = (Finite 3600, Finite (- 1800), NaN, Finite 30, Finite 0),
      v2_ref = Finite 3600, v3_ref = Finite (- 1800),
      attitude_matrix = (Finite 0, Finite 0, NaN, Finite (61 / 2), Finite 0),
      tel_ra = Some NaN, tel_dec = Some (Finite (61 / 2)), tel_roll = Some (Finite 0)\<rparr>"

subsection \<open>A library on the sphere\<close>

text \<open>
  Modelled from the spec: the AttitudeFrame collaborator (PySIAF), whose code is not in
  the repository. The specification describes it as building ``a rotation matrix mapping
  instrument ideal coordinates to sky coordinates for a given pointing'', as transforming
  an ideal-frame offset to sky coordinates under a given attitude, and as recovering the
  position angle at a point, on a sphere (``a consequence of spherical geometry''). The
  model: vectors and \<open>3 \<times> 3\<close> matrices of reals (a matrix is its three rows), the
  rotations about the three axes by an angle in degrees, and the attitude as the product
  of five rotations that takes the direction \<open>(v2, v3)\<close> of the instrument frame (in
  arcseconds) to the direction \<open>(ra, dec)\<close> of the sky with position angle \<open>pa\<close>.
\<close>

type_synonym vec3 = "real \<times> real \<times> real"
type_synonym mat3 = "vec3 \<times> vec3 \<times> vec3"

fun dot :: "vec3 \<Rightarrow> vec3 \<Rightarrow> real" where
  "dot (a, b, c) (x, y, z) = a * x + b * y + c * z"

fun mat_vec :: "mat3 \<Rightarrow> vec3 \<Rightarrow> vec3" where
  "mat_vec (r1, r2, r3) v = (dot r1 v, dot r2 v, dot r3 v)"

fun mat_mul :: "mat3 \<Rightarrow> mat3 \<Rightarrow> mat3" where
  "mat_mul (r1, r2, r3) ((b11, b12, b13), (b21, b22, b23), (b31, b32, b33)) =
     (let c1 = (b11, b21, b31); c2 = (b12, b22, b32); c3 = (b13, b23, b33) in
      ((dot r1 c1, dot r1 c2, dot r1 c3),
       (dot r2 c1, dot r2 c2, dot r2 c3),
       (dot r3 c1, dot r3 c2, dot r3 c3)))"

definition cosd :: "real \<Rightarrow> real" where
  "cosd d = cos (d * pi / 180)"

definition sind :: "real \<Rightarrow> real" where
  "sind d = sin (d * pi / 180)"

definition rotate1 :: "real \<Rightarrow> mat3" where
  "rotate1 d = ((1, 0, 0), (0, cosd d, - sind d), (0, sind d, cosd d))"

definition rotate2 :: "real \<Rightarrow> mat3" where
  "rotate2 d = ((cosd d, 0, sind d), (0, 1, 0), (- sind d, 0, cosd d))"

definition rotate3 :: "real \<Rightarrow> mat3" where
  "rotate3 d = ((cosd d, - sind d, 0), (sind d, cosd d, 0), (0, 0, 1))"

definition attitude_mat :: "real \<Rightarrow> real \<Rightarrow> real \<Rightarrow> real \<Rightarrow> real \<Rightarrow> mat3" where
  "attitude_mat v2 v3 r d p =
     mat_mul (rotate3 r) (mat_mul (rotate2 (- d)) (mat_mul (rotate1 (- p))
       (mat_mul (rotate2 (v3 / 3600)) (rotate3 (- (v2 / 3600))))))"

text \<open>
  Modelled from the spec: the direction with longitude \<open>lon\<close> and latitude \<open>lat\<close> (degrees)
  as a unit vector, and back: the longitude in \<open>[0, 360)\<close>, taken as \<open>0\<close> at a pole, and the
  latitude.
\<close>

definition unit_vec :: "real \<Rightarrow> real \<Rightarrow> vec3" where
  "unit_vec lon lat = (cosd lat * cosd lon, cosd lat * sind lon, sind lat)"

definition lon_deg :: "real \<Rightarrow> real \<Rightarrow> real" where
  "lon_deg y x =
     (if 0 < x then (if 0 \<le> y then arctan (y / x) * 180 / pi else arctan (y / x) * 180 / pi + 360)
      else if x < 0 then arctan (y / x) * 180 / pi + 180
      else if 0 < y then 90 else if y < 0 then 270 else 0)"

definition lat_deg :: "real \<Rightarrow> real" where
  "lat_deg z = arcsin z * 180 / pi"

fun sky_angles :: "vec3 \<Rightarrow> real \<times> real" where
  "sky_angles (x, y, z) = (lon_deg y x, lat_deg z)"

text \<open>
  Modelled from the spec: the sky position of the instrument direction \<open>(v2, v3)\<close>
  (arcseconds) under an attitude, and the position angle of the instrument's \<open>v3\<close> axis
  there.
\<close>

definition pointing :: "mat3 \<Rightarrow> real \<Rightarrow> real \<Rightarrow> real \<times> real" where
  "pointing M v2 v3 = sky_angles (mat_vec M (unit_vec (v2 / 3600) (v3 / 3600)))"

fun posangle_mat :: "mat3 \<Rightarrow> real \<Rightarrow> real \<Rightarrow> real" where
  "posangle_mat ((m00, m01, m02), (m10, m11, m12), (m20, m21, m22)) v2 v3 =
     (let x = - (m20 * cosd (v2 / 3600) + m21 * sind (v2 / 3600)) * sind (v3 / 3600)
                + m22 * cosd (v3 / 3600);
          y = (m00 * m12 - m10 * m02) * cosd (v2 / 3600)
                + (m01 * m12 - m11 * m02) * sind (v2 / 3600)
      in lon_deg y x)"

text \<open>
  Modelled from the spec: the three AttitudeFrame functions on Python floats. A
  non-finite argument gives NaN results (a matrix of NaN is \<open>NanMat\<close>); no call raises.
  The aperture's reference point is on the boresight, and its ideal axes are the
  instrument's \<open>v2\<close> and \<open>v3\<close> axes.
\<close>

datatype pymat = Mat mat3 | NanMat

fun real_of :: "pyfloat \<Rightarrow> real option" where
  "real_of (Finite x) = Some x"
| "real_of PosInf = None"
| "real_of NegInf = None"
| "real_of NaN = None"

definition attitude_py :: "pyfloat \<Rightarrow> pyfloat \<Rightarrow> pyfloat \<Rightarrow> pyfloat \<Rightarrow> pyfloat \<Rightarrow> pymat" where
  "attitude_py v2 v3 r d p =
     (case (real_of v2, real_of v3, real_of r, real_of d, real_of p) of
        (Some a, Some b, Some c, Some e, Some f) \<Rightarrow> Mat (attitude_mat a b c e f)
      | _ \<Rightarrow> NanMat)"

definition pointing_py :: "pymat \<Rightarrow> pyfloat \<Rightarrow> pyfloat \<Rightarrow> pyfloat \<times> pyfloat" where
  "pointing_py M v2 v3 =
     (case (M, real_of v2, real_of v3) of
        (Mat m, Some a, Some b) \<Rightarrow> (Finite (fst (pointing m a b)), Finite (snd (pointing m a b)))
      | _ \<Rightarrow> (NaN, NaN))"

definition posangle_py :: "pymat \<Rightarrow> pyfloat \<Rightarrow> pyfloat \<Rightarrow> pyfloat" where
  "posangle_py M v2 v3 =
     (case (M, real_of v2, real_of v3) of
        (Mat m, Some a, Some b) \<Rightarrow> Finite (posangle_mat m a b)
      | _ \<Rightarrow> NaN)"

definition sphere_library :: "pymat pysiaf" where
  "sphere_library =
     \<lparr>V2Ref = Finite 0, V3Ref = Finite 0,
      attitude = (\<lambda>v2 v3 r d p. Inr (attitude_py v2 v3 r d p)),
      tel_to_sky = (\<lambda>M a b. Inr (pointing_py M a b)),
      idl_to_sky = (\<lambda>M x y. Inr (pointing_py M x y)),
      posangle = (\<lambda>M a b. Inr (posangle_py M a b))\<rparr>"

text \<open>
  The instance at the position \<open>(r, d)\<close> with roll angle \<open>0\<close> and the attitude \<open>M\<close>, over
  this library.
\<close>

definition sphere_state :: "real \<Rightarrow> real \<Rightarrow> mat3 \<Rightarrow> pymat PointWFI" where
  "sphere_state r d M =
     \<lparr>ra = Finite r, dec = Finite d, roll_angle = Finite 0, siaf_aperture = Mat M,
      v2_ref = Finite 0, v3_ref = Finite 0, attitude_matrix = Mat M,
      tel_ra = Some (Finite r), tel_dec = Some (Finite d), tel_roll = Some (Finite 0)\<rparr>"

text \<open>
  The instance \<open>PointWFI(ra=80.0, dec=90.0, roll_angle=0.0)\<close> over this library: the
  target is the pole, and so is the boresight, whose right ascension the library gives
  as \<open>0\<close>.
\<close>

definition sphere_pole_state :: "pymat PointWFI" where
  "sphere_pole_state =
     \<lparr>ra = Finite 80, dec = Finite 90, roll_angle = Finite 0,
      siaf_aperture = Mat (attitude_mat 0 0 80 90 0),
      v2_ref = Finite 0, v3_ref = Finite 0,
      attitude_matrix = Mat ((0, 0, - 1), (0, 1, 0), (1, 0, 0)),
      tel_ra = Some (Finite 0), tel_dec = Some (Finite 90), tel_roll = Some (Finite 0)\<rparr>"

section \<open>Properties\<close>

subsection \<open>What each method does to an instance\<close>

lemma update_boresight_position_keeps:
  "ra (state_after (update_boresight_position L s)) = ra s \<and>
   dec (state_after (update_boresight_position L s)) = dec s \<and>
   roll_angle (state_after (update_boresight_position L s)) = roll_angle s \<and>
   v2_ref (state_after (update_boresight_position L s)) = v2_ref s \<and>
   v3_ref (state_after (update_boresight_position L s)) = v3_ref s \<and>
   siaf_aperture (state_after (update_boresight_position L s)) = siaf_aperture s"
  by (simp add: update_boresight_position_def Let_def split: sum.splits)

lemma update_boresight_position_returned:
  assumes "update_boresight_position L s = Returned s'"
  shows "\<exists>tr td m tp. tel_to_sky L (siaf_aperture s) (Finite 0) (Finite 0) = Inr (tr, td) \<and>
     attitude L (Finite 0) (Finite 0) tr td (roll_angle s) = Inr m \<and>
     posangle L m (Finite 0) (Finite 0) = Inr tp \<and>
     s' = s\<lparr>attitude_matrix := m, tel_ra := Some tr, tel_dec := Some td, tel_roll := Some tp\<rparr>"
  using assms
  by (auto simp add: update_boresight_position_def Let_def split: sum.splits)

lemma update_boresight_position_raised:
  assumes "update_boresight_position L s = Raised e s'"
  shows "e \<in> library_errors L"
  using assms
  by (auto simp add: update_boresight_position_def Let_def library_errors_def split: sum.splits)

lemma post_init_returned:
  assumes "post_init L r d p = Inr s"
  shows "consistent L s \<and> ra s = r \<and> dec s = d \<and> roll_angle s = p"
proof -
  from assms obtain m s0 where m: "attitude L (V2Ref L) (V3Ref L) r d p = Inr m"
    and s0: "s0 = \<lparr>ra = r, dec = d, roll_angle = p, siaf_aperture = m,
                   v2_ref = V2Ref L, v3_ref = V3Ref L, attitude_matrix = m,
                   tel_ra = None, tel_dec = None, tel_roll = None\<rparr>"
    and u: "update_boresight_position L s0 = Returned s"
    by (auto simp add: post_init_def split: sum.splits outcome.splits)
  from update_boresight_position_returned [OF u] s0 m show ?thesis
    by (auto simp add: consistent_def)
qed

lemma post_init_raised:
  assumes "post_init L r d p = Inl e"
  shows "e \<in> library_errors L"
  using assms update_boresight_position_raised [of L _ e]
  by (auto simp add: post_init_def library_errors_def split: sum.splits outcome.splits)

lemma dither_returned:
  assumes "dither L s x y = Returned s'"
  shows "\<exists>nr nd m tr td m' tp.
     idl_to_sky L (siaf_aperture s) x y = Inr (nr, nd) \<and>
     attitude L (v2_ref s) (v3_ref s) nr nd (roll_angle s) = Inr m \<and>
     tel_to_sky L m (Finite 0) (Finite 0) = Inr (tr, td) \<and>
     attitude L (Finite 0) (Finite 0) tr td (roll_angle s) = Inr m' \<and>
     posangle L m' (Finite 0) (Finite 0) = Inr tp \<and>
     s' = s\<lparr>ra := nr, dec := nd, siaf_aperture := m, attitude_matrix := m',
            tel_ra := Some tr, tel_dec := Some td, tel_roll := Some tp\<rparr>"
proof -
  from assms obtain nr nd m s1 where i: "idl_to_sky L (siaf_aperture s) x y = Inr (nr, nd)"
    and m: "attitude L (v2_ref s) (v3_ref s) nr nd (roll_angle s) = Inr m"
    and u: "update_boresight_position L (s\<lparr>attitude_matrix := m, siaf_aperture := m\<rparr>) = Returned s1"
    and s': "s' = s1\<lparr>ra := nr, dec := nd\<rparr>"
    by (auto simp add: dither_def split: sum.splits outcome.splits prod.splits)
  from update_boresight_position_returned [OF u] i m s' show ?thesis
    by auto
qed

lemma dither_raised:
  assumes "dither L s x y = Raised e s'"
  shows "e \<in> library_errors L \<and> ra s' = ra s \<and> dec s' = dec s \<and>
         roll_angle s' = roll_angle s \<and> v2_ref s' = v2_ref s \<and> v3_ref s' = v3_ref s"
proof (cases "idl_to_sky L (siaf_aperture s) x y")
  case (Inl e1)
  with assms show ?thesis
    by (auto simp add: dither_def library_errors_def)
next
  case (Inr pos)
  show ?thesis
  proof (cases "attitude L (v2_ref s) (v3_ref s) (fst pos) (snd pos) (roll_angle s)")
    case (Inl e2)
    with Inr assms show ?thesis
      by (auto simp add: dither_def library_errors_def split: prod.splits)
  next
    case (Inr m)
    let ?s1 = "s\<lparr>attitude_matrix := m, siaf_aperture := m\<rparr>"
    from assms \<open>idl_to_sky L (siaf_aperture s) x y = Inr pos\<close> Inr
    have u: "update_boresight_position L ?s1 = Raised e s'"
      by (auto simp add: dither_def split: prod.splits outcome.splits)
    from update_boresight_position_keeps [of L ?s1] u
    have "ra s' = ra s \<and> dec s' = dec s \<and>
        roll_angle s' = roll_angle s \<and> v2_ref s' = v2_ref s \<and> v3_ref s' = v3_ref s"
      by simp
    with update_boresight_position_raised [OF u] show ?thesis
      by simp
  qed
qed

lemma dither_unchanged_fields:
  "roll_angle (state_after (dither L s x y)) = roll_angle s \<and>
   v2_ref (state_after (dither L s x y)) = v2_ref s \<and>
   v3_ref (state_after (dither L s x y)) = v3_ref s"
proof (cases "dither L s x y")
  case (Returned s')
  from dither_returned [OF Returned] Returned show ?thesis
    by auto
next
  case (Raised e s')
  from dither_raised [OF Raised] Raised show ?thesis
    by simp
qed

subsection \<open>The invariant\<close>

lemma dither_consistent:
  assumes "dither L s x y = Returned s'" and "v2_ref s = V2Ref L" and "v3_ref s = V3Ref L"
  shows "consistent L s'"
  using dither_returned [OF assms(1)] assms(2,3)
  by (auto simp add: consistent_def)

lemma reachable_consistent: "reachable L s \<Longrightarrow> consistent L s"
proof (induction rule: reachable.induct)
  case (constructed ra_arg dec_arg roll_arg s)
  then show ?case by (auto simp add: Construct_def dest: post_init_returned)
next
  case (dithered s x y s')
  from dithered.IH have "v2_ref s = V2Ref L" and "v3_ref s = V3Ref L"
    by (simp_all add: consistent_def)
  with dithered.hyps(2) show ?case
    by (rule dither_consistent)
qed

subsection \<open>The class on the two libraries\<close>

lemma flat_Construct:
  "Construct flat_library (Some (Finite r)) (Some (Finite d)) (Some (Finite 0)) = Inr (flat_state r d)"
  by (simp add: Construct_def post_init_def update_boresight_position_def flat_library_def
      flat_state_def)

lemma flat_dither:
  "dither flat_library (flat_state r d) (Finite x) (Finite y) =
     Returned (flat_state (r + x / 3600) (d + y / 3600))"
  by (simp add: dither_def update_boresight_position_def flat_library_def flat_state_def)

lemma flat_dither_nan:
  "dither flat_library (flat_state 80 30) NaN (Finite 0) = Returned flat_nan_state"
  by (simp add: dither_def update_boresight_position_def flat_library_def flat_state_def
      flat_nan_state_def)

lemma checking_dither_nan:
  "dither checking_library (flat_state 80 30) NaN (Finite 0) =
     Raised InvalidArgument (flat_state 80 30)"
  by (simp add: dither_def checking_library_def)

lemma flat_dithers_commute:
  "dithers flat_library (flat_state r d) [(Finite x1, Finite y1), (Finite x2, Finite y2)] =
   dithers flat_library (flat_state r d) [(Finite x2, Finite y2), (Finite x1, Finite y1)]"
  by (simp add: flat_dither algebra_simps)

lemma flat_reachable_start: "reachable flat_library (flat_state 80 30)"
  by (rule constructed [OF flat_Construct])

lemma flat_reachable_next: "reachable flat_library (flat_state (8001 / 100) (301 / 10))"
proof -
  have "dither flat_library (flat_state 80 30) (Finite 36) (Finite 360) =
          Returned (flat_state (8001 / 100) (301 / 10))"
    by (simp add: flat_dither)
  with flat_reachable_start show ?thesis
    by (rule dithered)
qed

section \<open>The claims\<close>

subsection \<open>The attitude matrices\<close>

text \<open>
  Claim C1, as amended. After the constructor and after every \<open>dither\<close> call that
  returned, both stored matrices are the ones computed from the stored \<open>ra\<close>, \<open>dec\<close> and
  \<open>roll_angle\<close>, neither is stale: the attitude matrix installed on the aperture (the
  one every position conversion uses) is the matrix the library builds from
  \<open>(v2_ref, v3_ref, ra, dec, roll_angle)\<close>, and the attribute \<open>attitude_matrix\<close> is the
  matrix built from \<open>(0, 0, tel_ra, tel_dec, roll_angle)\<close>, where \<open>(tel_ra, tel_dec)\<close> is
  the boresight position under the aperture's matrix.
\<close>

theorem attitude_matrices_consistent:
  assumes "reachable L s"
  shows "attitude L (v2_ref s) (v3_ref s) (ra s) (dec s) (roll_angle s) = Inr (siaf_aperture s) \<and>
         (\<exists>tr td. tel_to_sky L (siaf_aperture s) (Finite 0) (Finite 0) = Inr (tr, td) \<and>
                  attitude L (Finite 0) (Finite 0) tr td (roll_angle s) = Inr (attitude_matrix s))"
  using reachable_consistent [OF assms]
  by (auto simp add: consistent_def split: option.splits)

text \<open>The instance after \<open>PointWFI(80.0, 30.0, 0.0)\<close> and \<open>dither(36, 360)\<close>.\<close>

theorem attitude_matrices_consistent_witness:
  "reachable flat_library (flat_state (8001 / 100) (301 / 10)) \<and>
   attitude flat_library (Finite 3600) (Finite (- 1800)) (Finite (8001 / 100)) (Finite (301 / 10))
      (Finite 0)
     = Inr (siaf_aperture (flat_state (8001 / 100) (301 / 10))) \<and>
   tel_to_sky flat_library (siaf_aperture (flat_state (8001 / 100) (301 / 10))) (Finite 0) (Finite 0)
     = Inr (Finite (7901 / 100), Finite (153 / 5)) \<and>
   attitude flat_library (Finite 0) (Finite 0) (Finite (7901 / 100)) (Finite (153 / 5)) (Finite 0)
     = Inr (attitude_matrix (flat_state (8001 / 100) (301 / 10)))"
  using attitude_matrices_consistent [OF flat_reachable_next] flat_reachable_next
  by (auto simp add: flat_state_def flat_library_def)

text \<open>
  Claim C1 as stated fails for the attribute \<open>attitude_matrix\<close>:
  \<open>_update_boresight_position\<close> overwrites it with the matrix built from
  \<open>(0, 0, tel_ra, tel_dec, roll_angle)\<close>. On \<open>PointWFI(80.0, 30.0, 0.0)\<close> the attribute is
  the matrix anchored at the boresight \<open>(79, 30.5)\<close>, not the one built from
  \<open>(v2_ref, v3_ref, 80, 30, 0)\<close>.
\<close>

theorem attitude_matrix_field_boresight_anchored:
  "Construct flat_library (Some (Finite 80)) (Some (Finite 30)) (Some (Finite 0))
     = Inr (flat_state 80 30) \<and>
   attitude flat_library (v2_ref (flat_state 80 30)) (v3_ref (flat_state 80 30))
      (ra (flat_state 80 30)) (dec (flat_state 80 30)) (roll_angle (flat_state 80 30))
     \<noteq> Inr (attitude_matrix (flat_state 80 30))"
  by (simp add: flat_Construct) (simp add: flat_state_def flat_library_def)

text \<open>
  Claim C9. After the constructor and after every \<open>dither\<close> call that returned, the three
  boresight attributes exist; \<open>(tel_ra, tel_dec)\<close> is what the aperture's \<open>tel_to_sky\<close>
  gives at \<open>(0, 0)\<close> under the aperture's current matrix, which is the one built for the
  stored target position; the attribute \<open>attitude_matrix\<close> is the matrix built from
  \<open>(0, 0, tel_ra, tel_dec, roll_angle)\<close>; and \<open>tel_roll\<close> is \<open>posangle\<close> of that matrix at
  \<open>(0, 0)\<close>.
\<close>

theorem boresight_fields_maintained:
  assumes "reachable L s"
  shows "\<exists>tr td tp.
     tel_ra s = Some tr \<and> tel_dec s = Some td \<and> tel_roll s = Some tp \<and>
     attitude L (v2_ref s) (v3_ref s) (ra s) (dec s) (roll_angle s) = Inr (siaf_aperture s) \<and>
     tel_to_sky L (siaf_aperture s) (Finite 0) (Finite 0) = Inr (tr, td) \<and>
     attitude L (Finite 0) (Finite 0) tr td (roll_angle s) = Inr (attitude_matrix s) \<and>
     posangle L (attitude_matrix s) (Finite 0) (Finite 0) = Inr tp"
  using reachable_consistent [OF assms]
  by (auto simp add: consistent_def split: option.splits)

theorem boresight_fields_maintained_witness:
  "reachable flat_library (flat_state (8001 / 100) (301 / 10)) \<and>
   tel_ra (flat_state (8001 / 100) (301 / 10)) = Some (Finite (7901 / 100)) \<and>
   tel_dec (flat_state (8001 / 100) (301 / 10)) = Some (Finite (153 / 5)) \<and>
   tel_roll (flat_state (8001 / 100) (301 / 10)) = Some (Finite 0) \<and>
   tel_to_sky flat_library (siaf_aperture (flat_state (8001 / 100) (301 / 10))) (Finite 0) (Finite 0)
     = Inr (Finite (7901 / 100), Finite (153 / 5)) \<and>
   attitude flat_library (Finite 0) (Finite 0) (Finite (7901 / 100)) (Finite (153 / 5)) (Finite 0)
     = Inr (attitude_matrix (flat_state (8001 / 100) (301 / 10))) \<and>
   posangle flat_library (attitude_matrix (flat_state (8001 / 100) (301 / 10))) (Finite 0) (Finite 0)
     = Inr (Finite 0)"
  using boresight_fields_maintained [OF flat_reachable_next] flat_reachable_next
  by (auto simp add: flat_state_def)

subsection \<open>One dither\<close>

text \<open>
  Claim C2. A \<open>dither\<close> call that returns, on an instance left by the constructor and
  earlier \<open>dither\<close> calls: the aperture's matrix at the call is the one built for the
  stored (current) position; the new position is what \<open>idl_to_sky\<close> gives for the offset
  under that matrix; and the matrix installed afterwards is the one built from
  \<open>(v2_ref, v3_ref, new_ra, new_dec, roll_angle)\<close>, so that the next \<open>dither\<close> starts from
  it.
\<close>

theorem dither_steps:
  assumes "reachable L s" and "dither L s x y = Returned s'"
  shows "attitude L (v2_ref s) (v3_ref s) (ra s) (dec s) (roll_angle s) = Inr (siaf_aperture s) \<and>
         idl_to_sky L (siaf_aperture s) x y = Inr (ra s', dec s') \<and>
         attitude L (v2_ref s) (v3_ref s) (ra s') (dec s') (roll_angle s) = Inr (siaf_aperture s')"
  using reachable_consistent [OF assms(1)] dither_returned [OF assms(2)]
  by (auto simp add: consistent_def)

text \<open>A second dither, from the position the first one left.\<close>

theorem dither_steps_witness:
  "reachable flat_library (flat_state (8001 / 100) (301 / 10)) \<and>
   dither flat_library (flat_state (8001 / 100) (301 / 10)) (Finite 36) (Finite 360)
     = Returned (flat_state (4001 / 50) (151 / 5)) \<and>
   idl_to_sky flat_library (siaf_aperture (flat_state (8001 / 100) (301 / 10))) (Finite 36) (Finite 360)
     = Inr (Finite (4001 / 50), Finite (151 / 5)) \<and>
   attitude flat_library (Finite 3600) (Finite (- 1800)) (Finite (4001 / 50)) (Finite (151 / 5)) (Finite 0)
     = Inr (siaf_aperture (flat_state (4001 / 50) (151 / 5)))"
proof -
  have d: "dither flat_library (flat_state (8001 / 100) (301 / 10)) (Finite 36) (Finite 360)
             = Returned (flat_state (4001 / 50) (151 / 5))"
    by (simp add: flat_dither)
  from dither_steps [OF flat_reachable_next d] flat_reachable_next d show ?thesis
    by (simp add: flat_state_def)
qed

subsection \<open>The stored position\<close>

text \<open>
  Claim C5. A constructor call given \<open>ra\<close> and \<open>dec\<close> that returns leaves exactly these as
  the position. A \<open>dither\<close> call that returns leaves as the position what \<open>idl_to_sky\<close> gave
  for its offset; a \<open>dither\<close> call that raises leaves the position as it was. So the
  position is always that of the latest call that succeeded.
\<close>

theorem CurrentPosition_latest:
  "(Construct L (Some r) (Some d) roll_arg = Inr s \<longrightarrow> CurrentPosition s = (r, d)) \<and>
   (dither L s x y = Returned s' \<longrightarrow>
      idl_to_sky L (siaf_aperture s) x y = Inr (CurrentPosition s')) \<and>
   (dither L s x y = Raised e s'' \<longrightarrow> CurrentPosition s'' = CurrentPosition s)"
proof (intro conjI impI)
  assume "Construct L (Some r) (Some d) roll_arg = Inr s"
  then show "CurrentPosition s = (r, d)"
    by (auto simp add: Construct_def CurrentPosition_def dest: post_init_returned)
next
  assume "dither L s x y = Returned s'"
  from dither_returned [OF this]
  show "idl_to_sky L (siaf_aperture s) x y = Inr (CurrentPosition s')"
    by (auto simp add: CurrentPosition_def)
next
  assume "dither L s x y = Raised e s''"
  from dither_raised [OF this] show "CurrentPosition s'' = CurrentPosition s"
    by (simp add: CurrentPosition_def)
qed

text \<open>
  \<open>PointWFI(80.0, 30.0, 0.0)\<close>, then \<open>dither(36, 360)\<close>; and, on a library that rejects
  it, \<open>dither(nan, 0)\<close>.
\<close>

theorem CurrentPosition_latest_witness:
  "Construct flat_library (Some (Finite 80)) (Some (Finite 30)) (Some (Finite 0))
     = Inr (flat_state 80 30) \<and>
   CurrentPosition (flat_state 80 30) = (Finite 80, Finite 30) \<and>
   dither flat_library (flat_state 80 30) (Finite 36) (Finite 360)
     = Returned (flat_state (8001 / 100) (301 / 10)) \<and>
   idl_to_sky flat_library (siaf_aperture (flat_state 80 30)) (Finite 36) (Finite 360)
     = Inr (CurrentPosition (flat_state (8001 / 100) (301 / 10))) \<and>
   dither checking_library (flat_state 80 30) NaN (Finite 0)
     = Raised InvalidArgument (flat_state 80 30)"
proof -
  have d: "dither flat_library (flat_state 80 30) (Finite 36) (Finite 360)
             = Returned (flat_state (8001 / 100) (301 / 10))"
    by (simp add: flat_dither)
  from CurrentPosition_latest
         [of flat_library "Finite 80" "Finite 30" "Some (Finite 0)" "flat_state 80 30"
             "Finite 36" "Finite 360" "flat_state (8001 / 100) (301 / 10)"
             InvalidArgument "flat_state 80 30"]
       flat_Construct [of 80 30] d checking_dither_nan
  show ?thesis
    by simp
qed

text \<open>
  Claim C10. The constructor called with no arguments is the constructor called with
  \<open>ra = 80.0\<close>, \<open>dec = 30.0\<close>, \<open>roll_angle = 0.0\<close>, and the instance it returns has the
  position \<open>(80.0, 30.0)\<close> and the roll angle \<open>0.0\<close>.
\<close>

theorem Construct_defaults:
  "Construct L None None None =
     Construct L (Some (Finite 80)) (Some (Finite 30)) (Some (Finite 0)) \<and>
   (Construct L None None None = Inr s \<longrightarrow>
      CurrentPosition s = (Finite 80, Finite 30) \<and> roll_angle s = Finite 0)"
  by (auto simp add: Construct_def CurrentPosition_def dest: post_init_returned)

theorem Construct_defaults_witness:
  "Construct flat_library None None None = Inr (flat_state 80 30) \<and>
   CurrentPosition (flat_state 80 30) = (Finite 80, Finite 30) \<and>
   roll_angle (flat_state 80 30) = Finite 0"
  using Construct_defaults [of flat_library "flat_state 80 30"] flat_Construct [of 80 30]
  by simp

subsection \<open>Two dithers in either order\<close>

lemma cosd_values: "cosd 0 = 1" "cosd 90 = 0" "cosd (- 90) = 0"
  by (simp_all add: cosd_def)

lemma sind_values: "sind 0 = 0" "sind 90 = 1" "sind (- 90) = - 1"
  by (simp_all add: sind_def)

lemma lat_deg_values: "lat_deg 0 = 0" "lat_deg 1 = 90"
  by (simp_all add: lat_deg_def)

lemma lon_deg_values: "lon_deg 0 1 = 0" "lon_deg 1 0 = 90" "lon_deg 0 0 = 0"
  by (simp_all add: lon_deg_def)

lemma attitude_mat_values:
  "attitude_mat 0 0 0 0 0 = ((1, 0, 0), (0, 1, 0), (0, 0, 1))"
  "attitude_mat 0 0 90 0 0 = ((0, - 1, 0), (1, 0, 0), (0, 0, 1))"
  "attitude_mat 0 0 0 90 0 = ((0, 0, - 1), (0, 1, 0), (1, 0, 0))"
  by (simp_all add: attitude_mat_def rotate1_def rotate2_def rotate3_def cosd_values sind_values)

lemma pointing_values:
  "pointing ((1, 0, 0), (0, 1, 0), (0, 0, 1)) 0 0 = (0, 0)"
  "pointing ((1, 0, 0), (0, 1, 0), (0, 0, 1)) 324000 0 = (90, 0)"
  "pointing ((1, 0, 0), (0, 1, 0), (0, 0, 1)) 0 324000 = (0, 90)"
  "pointing ((0, - 1, 0), (1, 0, 0), (0, 0, 1)) 0 0 = (90, 0)"
  "pointing ((0, - 1, 0), (1, 0, 0), (0, 0, 1)) 0 324000 = (0, 90)"
  "pointing ((0, 0, - 1), (0, 1, 0), (1, 0, 0)) 0 0 = (0, 90)"
  "pointing ((0, 0, - 1), (0, 1, 0), (1, 0, 0)) 324000 0 = (90, 0)"
  by (simp_all add: pointing_def unit_vec_def cosd_values sind_values lat_deg_values
      lon_deg_values)

lemma sphere_Construct:
  "Construct sphere_library (Some (Finite 0)) (Some (Finite 0)) (Some (Finite 0))
     = Inr (sphere_state 0 0 ((1, 0, 0), (0, 1, 0), (0, 0, 1)))"
  by (simp add: Construct_def post_init_def update_boresight_position_def sphere_library_def
      sphere_state_def attitude_py_def pointing_py_def posangle_py_def
      attitude_mat_values pointing_values cosd_values sind_values lon_deg_values)

lemma sphere_dither_east:
  "dither sphere_library (sphere_state r d ((1, 0, 0), (0, 1, 0), (0, 0, 1)))
      (Finite 324000) (Finite 0)
     = Returned (sphere_state 90 0 ((0, - 1, 0), (1, 0, 0), (0, 0, 1)))"
  "dither sphere_library (sphere_state r d ((0, 0, - 1), (0, 1, 0), (1, 0, 0)))
      (Finite 324000) (Finite 0)
     = Returned (sphere_state 90 0 ((0, - 1, 0), (1, 0, 0), (0, 0, 1)))"
  by (simp_all add: dither_def update_boresight_position_def sphere_library_def
      sphere_state_def attitude_py_def pointing_py_def posangle_py_def
      attitude_mat_values pointing_values cosd_values sind_values lon_deg_values)

lemma sphere_dither_north:
  "dither sphere_library (sphere_state r d ((1, 0, 0), (0, 1, 0), (0, 0, 1)))
      (Finite 0) (Finite 324000)
     = Returned (sphere_state 0 90 ((0, 0, - 1), (0, 1, 0), (1, 0, 0)))"
  "dither sphere_library (sphere_state r d ((0, - 1, 0), (1, 0, 0), (0, 0, 1)))
      (Finite 0) (Finite 324000)
     = Returned (sphere_state 0 90 ((0, 0, - 1), (0, 1, 0), (1, 0, 0)))"
  by (simp_all add: dither_def update_boresight_position_def sphere_library_def
      sphere_state_def attitude_py_def pointing_py_def posangle_py_def
      attitude_mat_values pointing_values cosd_values sind_values lon_deg_values)

text \<open>
  Claim C7. On the sphere, from \<open>PointWFI(ra=0.0, dec=0.0, roll_angle=0.0)\<close>, a dither by
  \<open>(324000, 0)\<close> (a quarter turn along the ideal x axis) followed by a dither by
  \<open>(0, 324000)\<close> (a quarter turn along the ideal y axis) ends at the pole, position
  \<open>(0, 90)\<close>; the same two dithers in the other order end at \<open>(90, 0)\<close>.
\<close>

theorem dither_not_commutative:
  "Construct sphere_library (Some (Finite 0)) (Some (Finite 0)) (Some (Finite 0))
     = Inr (sphere_state 0 0 ((1, 0, 0), (0, 1, 0), (0, 0, 1))) \<and>
   dither sphere_library (sphere_state 0 0 ((1, 0, 0), (0, 1, 0), (0, 0, 1)))
      (Finite 324000) (Finite 0)
     = Returned (sphere_state 90 0 ((0, - 1, 0), (1, 0, 0), (0, 0, 1))) \<and>
   dither sphere_library (sphere_state 90 0 ((0, - 1, 0), (1, 0, 0), (0, 0, 1)))
      (Finite 0) (Finite 324000)
     = Returned (sphere_state 0 90 ((0, 0, - 1), (0, 1, 0), (1, 0, 0))) \<and>
   dither sphere_library (sphere_state 0 0 ((1, 0, 0), (0, 1, 0), (0, 0, 1)))
      (Finite 0) (Finite 324000)
     = Returned (sphere_state 0 90 ((0, 0, - 1), (0, 1, 0), (1, 0, 0))) \<and>
   dither sphere_library (sphere_state 0 90 ((0, 0, - 1), (0, 1, 0), (1, 0, 0)))
      (Finite 324000) (Finite 0)
     = Returned (sphere_state 90 0 ((0, - 1, 0), (1, 0, 0), (0, 0, 1))) \<and>
   CurrentPosition (sphere_state 0 90 ((0, 0, - 1), (0, 1, 0), (1, 0, 0))) = (Finite 0, Finite 90) \<and>
   CurrentPosition (sphere_state 90 0 ((0, - 1, 0), (1, 0, 0), (0, 0, 1))) = (Finite 90, Finite 0) \<and>
   CurrentPosition (sphere_state 0 90 ((0, 0, - 1), (0, 1, 0), (1, 0, 0)))
     \<noteq> CurrentPosition (sphere_state 90 0 ((0, - 1, 0), (1, 0, 0), (0, 0, 1)))"
  by (simp add: sphere_Construct sphere_dither_east sphere_dither_north)
     (simp add: CurrentPosition_def sphere_state_def)

subsection \<open>Dithering by zero\<close>

text \<open>
  For every library: on an instance left by the constructor and earlier \<open>dither\<close> calls,
  \<open>dither(0, 0)\<close> leaves every attribute as it was if (and, for the position, only if) the
  library's \<open>idl_to_sky\<close> at the offset \<open>(0, 0)\<close> gives back the stored position.
\<close>

lemma dither_zero_anchored:
  assumes "reachable L s" and "anchored L s"
  shows "dither L s (Finite 0) (Finite 0) = Returned s"
proof -
  from reachable_consistent [OF assms(1)]
  obtain tr td tp where v: "v2_ref s = V2Ref L" "v3_ref s = V3Ref L"
    and m: "attitude L (v2_ref s) (v3_ref s) (ra s) (dec s) (roll_angle s) = Inr (siaf_aperture s)"
    and t: "tel_ra s = Some tr" "tel_dec s = Some td" "tel_roll s = Some tp"
    and b: "tel_to_sky L (siaf_aperture s) (Finite 0) (Finite 0) = Inr (tr, td)"
      "attitude L (Finite 0) (Finite 0) tr td (roll_angle s) = Inr (attitude_matrix s)"
      "posangle L (attitude_matrix s) (Finite 0) (Finite 0) = Inr tp"
    by (auto simp add: consistent_def split: option.splits)
  from assms(2) v m
  have i: "idl_to_sky L (siaf_aperture s) (Finite 0) (Finite 0) = Inr (ra s, dec s)"
    by (simp add: anchored_def)
  have "s\<lparr>attitude_matrix := attitude_matrix s, siaf_aperture := siaf_aperture s,
          tel_ra := Some tr, tel_dec := Some td, tel_roll := Some tp,
          ra := ra s, dec := dec s\<rparr> = s"
    using t by simp
  with i m b show ?thesis
    by (simp add: dither_def update_boresight_position_def)
qed

text \<open>
  On the sphere: the attitude built for \<open>(0, 0, r, d, p)\<close> sends the boresight to the
  direction \<open>(r, d)\<close>, and the angles of that direction are \<open>(r, d)\<close> again when \<open>r\<close> and \<open>d\<close>
  are the angles the library itself would give.
\<close>

lemma rad_less: "a < b \<Longrightarrow> a * pi / 180 < b * pi / 180"
  by simp

lemma rad_le: "a \<le> b \<Longrightarrow> a * pi / 180 \<le> b * pi / 180"
  by simp

lemma rad_open_quarter:
  assumes "- 90 < d" and "d < 90"
  shows "- (pi / 2) < d * pi / 180" and "d * pi / 180 < pi / 2"
  using rad_less [OF assms(1)] rad_less [OF assms(2)] by simp_all

lemma rad_closed_quarter:
  assumes "- 90 \<le> d" and "d \<le> 90"
  shows "- (pi / 2) \<le> d * pi / 180" and "d * pi / 180 \<le> pi / 2"
  using rad_le [OF assms(1)] rad_le [OF assms(2)] by simp_all

lemma cosd_minus: "cosd (- d) = cosd d"
  by (simp add: cosd_def)

lemma sind_minus: "sind (- d) = - sind d"
  by (simp add: sind_def)

lemma attitude_mat_boresight:
  "mat_vec (attitude_mat 0 0 r d p) (unit_vec 0 0) = unit_vec r d"
  by (simp add: attitude_mat_def rotate1_def rotate2_def rotate3_def unit_vec_def
      cosd_minus sind_minus cosd_values sind_values mult.commute)

lemma lat_deg_sind:
  assumes "- 90 \<le> d" and "d \<le> 90"
  shows "lat_deg (sind d) = d"
proof -
  have "- (pi / 2) \<le> d * pi / 180" and "d * pi / 180 \<le> pi / 2"
    using assms by (rule rad_closed_quarter)+
  then have "arcsin (sin (d * pi / 180)) = d * pi / 180"
    by (rule arcsin_sin)
  then show ?thesis
    by (simp add: lat_deg_def sind_def)
qed

lemma cosd_pos:
  assumes "- 90 < d" and "d < 90"
  shows "0 < cosd d"
proof -
  have "- (pi / 2) < d * pi / 180" and "d * pi / 180 < pi / 2"
    using assms by (rule rad_open_quarter)+
  then show ?thesis
    unfolding cosd_def by (rule cos_gt_zero_pi)
qed

lemma cosd_shift: "cosd (r - 180) = - cosd r" "cosd (r - 360) = cosd r"
proof -
  have a: "(r - 180) * pi / 180 = r * pi / 180 - pi" by (simp add: field_simps)
  have b: "(r - 360) * pi / 180 = r * pi / 180 - 2 * pi" by (simp add: field_simps)
  show "cosd (r - 180) = - cosd r" unfolding cosd_def a by (simp add: cos_diff)
  show "cosd (r - 360) = cosd r" unfolding cosd_def b by (simp add: cos_diff)
qed

lemma sind_shift: "sind (r - 180) = - sind r" "sind (r - 360) = sind r"
proof -
  have a: "(r - 180) * pi / 180 = r * pi / 180 - pi" by (simp add: field_simps)
  have b: "(r - 360) * pi / 180 = r * pi / 180 - 2 * pi" by (simp add: field_simps)
  show "sind (r - 180) = - sind r" unfolding sind_def a by (simp add: sin_diff)
  show "sind (r - 360) = sind r" unfolding sind_def b by (simp add: sin_diff)
qed

lemma sind_pos:
  assumes "0 < d" and "d < 180"
  shows "0 < sind d"
proof -
  have "0 < d * pi / 180" and "d * pi / 180 < pi"
    using rad_less [OF assms(1)] rad_less [OF assms(2)] by simp_all
  then show ?thesis
    unfolding sind_def by (rule sin_gt_zero)
qed

lemma arctan_tand:
  assumes "- 90 < d" and "d < 90"
  shows "arctan (sind d / cosd d) * 180 / pi = d"
proof -
  have "- (pi / 2) < d * pi / 180" and "d * pi / 180 < pi / 2"
    using assms by (rule rad_open_quarter)+
  then have "arctan (tan (d * pi / 180)) = d * pi / 180"
    by (rule arctan_tan)
  then show ?thesis
    by (simp add: sind_def cosd_def tan_def)
qed

lemma lon_deg_unit:
  assumes "0 \<le> r" and "r < 360" and c: "0 < c"
  shows "lon_deg (c * sind r) (c * cosd r) = r"
proof -
  have q: "c * sind r / (c * cosd r) = sind r / cosd r"
    using c by simp
  consider "r < 90" | "r = 90" | "90 < r" "r < 270" | "r = 270" | "270 < r"
    by linarith
  then show ?thesis
  proof cases
    case 1
    with assms have cp: "0 < cosd r" by (intro cosd_pos) auto
    have sp: "0 \<le> sind r"
    proof (cases "r = 0")
      case True then show ?thesis by (simp add: sind_values)
    next
      case False with assms 1 have "0 < sind r" by (intro sind_pos) auto
      then show ?thesis by simp
    qed
    from 1 assms have "arctan (sind r / cosd r) * 180 / pi = r"
      by (intro arctan_tand) auto
    with cp sp c show ?thesis
      by (simp add: lon_deg_def q zero_less_mult_iff zero_le_mult_iff)
  next
    case 2
    with c show ?thesis
      by (simp add: lon_deg_def cosd_values sind_values)
  next
    case 3
    then have "0 < cosd (r - 180)" by (intro cosd_pos) auto
    then have cn: "cosd r < 0" by (simp add: cosd_shift)
    from 3 have "arctan (sind (r - 180) / cosd (r - 180)) * 180 / pi = r - 180"
      by (intro arctan_tand) auto
    then have "arctan (sind r / cosd r) * 180 / pi = r - 180"
      by (simp add: cosd_shift sind_shift)
    with cn c show ?thesis
      by (simp add: lon_deg_def q zero_less_mult_iff mult_less_0_iff)
  next
    case 4
    have "cosd 270 = 0" "sind 270 = - 1"
      using cosd_shift(1) [of 270] sind_shift(1) [of 270]
      by (simp_all add: cosd_values sind_values)
    with 4 c show ?thesis
      by (simp add: lon_deg_def)
  next
    case 5
    with assms have cp: "0 < cosd (r - 360)" by (intro cosd_pos) auto
    then have cp': "0 < cosd r" by (simp add: cosd_shift)
    from 5 assms have "0 < sind (r - 180)" by (intro sind_pos) auto
    then have sn: "sind r < 0" by (simp add: sind_shift)
    from 5 assms have "arctan (sind (r - 360) / cosd (r - 360)) * 180 / pi = r - 360"
      by (intro arctan_tand) auto
    then have "arctan (sind r / cosd r) * 180 / pi = r - 360"
      by (simp add: cosd_shift sind_shift)
    with cp' sn c show ?thesis
      by (simp add: lon_deg_def q zero_less_mult_iff zero_le_mult_iff not_le mult_less_0_iff)
  qed
qed

lemma pointing_attitude_boresight:
  assumes "0 \<le> r" and "r < 360" and "- 90 < d" and "d < 90"
  shows "pointing (attitude_mat 0 0 r d p) 0 0 = (r, d)"
proof -
  from assms have c: "0 < cosd d" by (intro cosd_pos)
  have "pointing (attitude_mat 0 0 r d p) 0 0 = sky_angles (unit_vec r d)"
    using attitude_mat_boresight [of r d p] by (simp add: pointing_def)
  also have "\<dots> = (lon_deg (cosd d * sind r) (cosd d * cosd r), lat_deg (sind d))"
    by (simp add: unit_vec_def)
  also have "\<dots> = (r, d)"
    using lon_deg_unit [OF assms(1,2) c] lat_deg_sind [of d] assms(3,4) by simp
  finally show ?thesis .
qed

lemma pointing_attitude_pole:
  "pointing (attitude_mat 0 0 r 90 p) 0 0 = (0, 90)"
  "pointing (attitude_mat 0 0 r (- 90) p) 0 0 = (0, - 90)"
proof -
  have "lat_deg (- 1) = - 90"
    by (simp add: lat_deg_def)
  then show "pointing (attitude_mat 0 0 r 90 p) 0 0 = (0, 90)"
    and "pointing (attitude_mat 0 0 r (- 90) p) 0 0 = (0, - 90)"
    using attitude_mat_boresight [of r 90 p] attitude_mat_boresight [of r "- 90" p]
    by (simp_all add: pointing_def unit_vec_def cosd_values sind_values lat_deg_values
        lon_deg_values)
qed

lemma pointing_attitude_canonical:
  assumes "(- 90 < d \<and> d < 90 \<and> 0 \<le> r \<and> r < 360) \<or> ((d = 90 \<or> d = - 90) \<and> r = 0)"
  shows "pointing (attitude_mat 0 0 r d p) 0 0 = (r, d)"
  using assms pointing_attitude_boresight [of r d p] pointing_attitude_pole [of r p]
  by auto

lemma sphere_reachable_east:
  "reachable sphere_library (sphere_state 90 0 ((0, - 1, 0), (1, 0, 0), (0, 0, 1)))"
  using constructed [OF sphere_Construct] sphere_dither_east(1) [of 0 0]
  by (rule dithered)

text \<open>
  Claim C6, as amended. Over the library on the sphere: on an instance left by the
  constructor and earlier \<open>dither\<close> calls, whose roll angle is finite and whose stored
  position \<open>(r, d)\<close> is written the way the library writes a direction (\<open>0 \<le> r < 360\<close> and
  \<open>-90 < d < 90\<close>, or \<open>r = 0\<close> at a pole \<open>d = 90\<close>, \<open>d = -90\<close>), \<open>dither(0, 0)\<close> returns and leaves
  every attribute as it was; in particular the position is exactly the same.
\<close>

theorem dither_zero_identity:
  assumes "reachable sphere_library s"
    and "ra s = Finite r" and "dec s = Finite d" and "roll_angle s = Finite p"
    and "(- 90 < d \<and> d < 90 \<and> 0 \<le> r \<and> r < 360) \<or> ((d = 90 \<or> d = - 90) \<and> r = 0)"
  shows "dither sphere_library s (Finite 0) (Finite 0) = Returned s"
proof -
  from pointing_attitude_canonical [OF assms(5), of p] assms(2,3,4)
  have "anchored sphere_library s"
    by (simp add: anchored_def sphere_library_def attitude_py_def pointing_py_def)
  with assms(1) show ?thesis
    by (rule dither_zero_anchored)
qed

text \<open>The instance after \<open>PointWFI(0.0, 0.0, 0.0)\<close> and \<open>dither(324000, 0)\<close>, at \<open>(90, 0)\<close>.\<close>

theorem dither_zero_identity_witness:
  "reachable sphere_library (sphere_state 90 0 ((0, - 1, 0), (1, 0, 0), (0, 0, 1))) \<and>
   CurrentPosition (sphere_state 90 0 ((0, - 1, 0), (1, 0, 0), (0, 0, 1))) = (Finite 90, Finite 0) \<and>
   (- 90 < (0::real) \<and> (0::real) < 90 \<and> (0::real) \<le> 90 \<and> (90::real) < 360) \<and>
   dither sphere_library (sphere_state 90 0 ((0, - 1, 0), (1, 0, 0), (0, 0, 1))) (Finite 0) (Finite 0)
     = Returned (sphere_state 90 0 ((0, - 1, 0), (1, 0, 0), (0, 0, 1)))"
proof -
  have "dither sphere_library (sphere_state 90 0 ((0, - 1, 0), (1, 0, 0), (0, 0, 1)))
          (Finite 0) (Finite 0)
        = Returned (sphere_state 90 0 ((0, - 1, 0), (1, 0, 0), (0, 0, 1)))"
    by (rule dither_zero_identity [OF sphere_reachable_east, of 90 0 0])
       (simp_all add: sphere_state_def)
  with sphere_reachable_east show ?thesis
    by (simp add: CurrentPosition_def sphere_state_def)
qed

text \<open>
  Claim C6 as stated fails at a pole: \<open>PointWFI(ra=80.0, dec=90.0, roll_angle=0.0)\<close> has a
  declination in range and the position \<open>(80, 90)\<close>; \<open>dither(0, 0)\<close> returns and the position
  is \<open>(0, 90)\<close>, the same direction with another right ascension.
\<close>

theorem dither_zero_at_pole_moves:
  "dec_in_range (Finite 90) \<and>
   Construct sphere_library (Some (Finite 80)) (Some (Finite 90)) (Some (Finite 0))
     = Inr sphere_pole_state \<and>
   CurrentPosition sphere_pole_state = (Finite 80, Finite 90) \<and>
   dither sphere_library sphere_pole_state (Finite 0) (Finite 0)
     = Returned (sphere_state 0 90 ((0, 0, - 1), (0, 1, 0), (1, 0, 0))) \<and>
   CurrentPosition (sphere_state 0 90 ((0, 0, - 1), (0, 1, 0), (1, 0, 0))) = (Finite 0, Finite 90)"
proof -
  have c: "Construct sphere_library (Some (Finite 80)) (Some (Finite 90)) (Some (Finite 0))
             = Inr sphere_pole_state"
    by (simp add: Construct_def post_init_def update_boresight_position_def sphere_library_def
        sphere_pole_state_def attitude_py_def pointing_py_def posangle_py_def
        pointing_attitude_pole attitude_mat_values cosd_values sind_values lon_deg_values)
  have d: "dither sphere_library sphere_pole_state (Finite 0) (Finite 0)
             = Returned (sphere_state 0 90 ((0, 0, - 1), (0, 1, 0), (1, 0, 0)))"
    by (simp add: dither_def update_boresight_position_def sphere_library_def
        sphere_pole_state_def sphere_state_def attitude_py_def pointing_py_def posangle_py_def
        pointing_attitude_pole pointing_values attitude_mat_values cosd_values sind_values
        lon_deg_values)
  from c d show ?thesis
    by (simp add: CurrentPosition_def sphere_pole_state_def sphere_state_def)
qed

subsection \<open>What a dither leaves alone\<close>

text \<open>
  Claim C8. After the constructor and any sequence of \<open>dither\<close> calls, whether they
  returned or raised, \<open>roll_angle\<close> is the constructor's, and \<open>v2_ref\<close> and \<open>v3_ref\<close> are the
  aperture's reference point, as set by the constructor.
\<close>

theorem dither_keeps_roll_and_reference:
  assumes "Construct L ra_arg dec_arg roll_arg = Inr s0"
  shows "roll_angle (dithers L s0 offs) = (case roll_arg of None \<Rightarrow> Finite 0 | Some p \<Rightarrow> p) \<and>
         v2_ref (dithers L s0 offs) = V2Ref L \<and>
         v3_ref (dithers L s0 offs) = V3Ref L \<and>
         roll_angle s0 = roll_angle (dithers L s0 offs) \<and>
         v2_ref s0 = v2_ref (dithers L s0 offs) \<and>
         v3_ref s0 = v3_ref (dithers L s0 offs)"
proof -
  have keep: "roll_angle (dithers L s offs) = roll_angle s \<and>
              v2_ref (dithers L s offs) = v2_ref s \<and>
              v3_ref (dithers L s offs) = v3_ref s" for s
  proof (induction offs arbitrary: s)
    case Nil
    show ?case by simp
  next
    case (Cons o1 offs)
    obtain x y where "o1 = (x, y)" by (cases o1)
    with Cons.IH [of "state_after (dither L s x y)"] dither_unchanged_fields [of L s x y]
    show ?case by simp
  qed
  from assms have "roll_angle s0 = (case roll_arg of None \<Rightarrow> Finite 0 | Some p \<Rightarrow> p) \<and>
      v2_ref s0 = V2Ref L \<and> v3_ref s0 = V3Ref L"
    by (auto simp add: Construct_def consistent_def dest: post_init_returned)
  with keep [of s0] show ?thesis
    by simp
qed

theorem dither_keeps_roll_and_reference_witness:
  "Construct flat_library (Some (Finite 80)) (Some (Finite 30)) (Some (Finite 0))
     = Inr (flat_state 80 30) \<and>
   dithers flat_library (flat_state 80 30) [(Finite 36, Finite 360), (NaN, Finite 0)]
     \<noteq> flat_state 80 30 \<and>
   roll_angle (dithers flat_library (flat_state 80 30) [(Finite 36, Finite 360), (NaN, Finite 0)])
     = Finite 0 \<and>
   v2_ref (dithers flat_library (flat_state 80 30) [(Finite 36, Finite 360), (NaN, Finite 0)])
     = Finite 3600 \<and>
   v3_ref (dithers flat_library (flat_state 80 30) [(Finite 36, Finite 360), (NaN, Finite 0)])
     = Finite (- 1800)"
proof -
  have "ra (dithers flat_library (flat_state 80 30) [(Finite 36, Finite 360), (NaN, Finite 0)]) = NaN"
    by (simp add: flat_dither)
       (simp add: dither_def update_boresight_position_def flat_library_def flat_state_def)
  then have "dithers flat_library (flat_state 80 30) [(Finite 36, Finite 360), (NaN, Finite 0)]
               \<noteq> flat_state 80 30"
    by (auto simp add: flat_state_def)
  with dither_keeps_roll_and_reference
         [OF flat_Construct [of 80 30], of "[(Finite 36, Finite 360), (NaN, Finite 0)]"]
       flat_Construct [of 80 30]
  show ?thesis
    by (simp add: flat_library_def)
qed

subsection \<open>Arguments the class does not check\<close>

text \<open>
  Claim C3, as amended. The constructor applies no range check to \<open>dec\<close> and raises
  nothing of its own. It makes four library calls: \<open>attitude\<close> for the target, \<open>tel_to_sky\<close>
  at \<open>(0, 0)\<close>, \<open>attitude\<close> for the boresight, and \<open>posangle\<close>. For every \<open>dec\<close>, inside
  \<open>[-90, 90]\<close> or not: if the four calls return, the constructor returns the instance
  holding the given \<open>ra\<close>, \<open>dec\<close> and \<open>roll_angle\<close>; otherwise it fails, with no instance,
  on the exception of the first of these calls that raises.
\<close>

theorem Construct_no_range_check:
  "(let r = (case ra_arg of None \<Rightarrow> Finite 80 | Some v \<Rightarrow> v);
        d = (case dec_arg of None \<Rightarrow> Finite 30 | Some v \<Rightarrow> v);
        p = (case roll_arg of None \<Rightarrow> Finite 0 | Some v \<Rightarrow> v)
    in
      (\<exists>m tr td m' tp.
          attitude L (V2Ref L) (V3Ref L) r d p = Inr m \<and>
          tel_to_sky L m (Finite 0) (Finite 0) = Inr (tr, td) \<and>
          attitude L (Finite 0) (Finite 0) tr td p = Inr m' \<and>
          posangle L m' (Finite 0) (Finite 0) = Inr tp \<and>
          Construct L ra_arg dec_arg roll_arg =
            Inr \<lparr>ra = r, dec = d, roll_angle = p, siaf_aperture = m,
                 v2_ref = V2Ref L, v3_ref = V3Ref L, attitude_matrix = m',
                 tel_ra = Some tr, tel_dec = Some td, tel_roll = Some tp\<rparr>) \<or>
      (\<exists>e. attitude L (V2Ref L) (V3Ref L) r d p = Inl e \<and>
           Construct L ra_arg dec_arg roll_arg = Inl e) \<or>
      (\<exists>m e. attitude L (V2Ref L) (V3Ref L) r d p = Inr m \<and>
           tel_to_sky L m (Finite 0) (Finite 0) = Inl e \<and>
           Construct L ra_arg dec_arg roll_arg = Inl e) \<or>
      (\<exists>m tr td e. attitude L (V2Ref L) (V3Ref L) r d p = Inr m \<and>
           tel_to_sky L m (Finite 0) (Finite 0) = Inr (tr, td) \<and>
           attitude L (Finite 0) (Finite 0) tr td p = Inl e \<and>
           Construct L ra_arg dec_arg roll_arg = Inl e) \<or>
      (\<exists>m tr td m' e. attitude L (V2Ref L) (V3Ref L) r d p = Inr m \<and>
           tel_to_sky L m (Finite 0) (Finite 0) = Inr (tr, td) \<and>
           attitude L (Finite 0) (Finite 0) tr td p = Inr m' \<and>
           posangle L m' (Finite 0) (Finite 0) = Inl e \<and>
           Construct L ra_arg dec_arg roll_arg = Inl e))"
  by (auto simp add: Let_def Construct_def post_init_def update_boresight_position_def
      split: sum.splits)

text \<open>
  Claim C3 as stated fails: with a library that accepts the arguments,
  \<open>PointWFI(ra=80.0, dec=95.0, roll_angle=0.0)\<close> returns an instance with \<open>dec = 95.0\<close>.
\<close>

theorem Construct_dec_95_returns:
  "\<not> dec_in_range (Finite 95) \<and>
   Construct flat_library (Some (Finite 80)) (Some (Finite 95)) (Some (Finite 0))
     = Inr (flat_state 80 95) \<and>
   dec (flat_state 80 95) = Finite 95"
  by (simp add: flat_Construct) (simp add: flat_state_def)

text \<open>
  Claim C4, as amended. \<open>dither\<close> applies no check to its offsets and raises nothing of
  its own. It makes five library calls: \<open>idl_to_sky\<close> on the offsets, \<open>attitude\<close> for the
  position that gave, and the three calls of the boresight update (\<open>tel_to_sky\<close>,
  \<open>attitude\<close>, \<open>posangle\<close>). For all offsets, finite or not: if \<open>idl_to_sky\<close> raises, or
  the \<open>attitude\<close> call after it, \<open>dither\<close> raises the same exception and the instance is
  exactly as before; if the five calls return, \<open>dither\<close> returns and the instance holds
  the position \<open>idl_to_sky\<close> gave; if a call of the boresight update raises, \<open>dither\<close>
  raises the same exception, \<open>ra\<close> and \<open>dec\<close> being as before and the assignments made up
  to that call standing.
\<close>

theorem dither_no_offset_check:
  "(\<exists>e. idl_to_sky L (siaf_aperture s) x y = Inl e \<and> dither L s x y = Raised e s) \<or>
   (\<exists>nr nd e.
       idl_to_sky L (siaf_aperture s) x y = Inr (nr, nd) \<and>
       attitude L (v2_ref s) (v3_ref s) nr nd (roll_angle s) = Inl e \<and>
       dither L s x y = Raised e s) \<or>
   (\<exists>nr nd m tr td m' tp.
       idl_to_sky L (siaf_aperture s) x y = Inr (nr, nd) \<and>
       attitude L (v2_ref s) (v3_ref s) nr nd (roll_angle s) = Inr m \<and>
       tel_to_sky L m (Finite 0) (Finite 0) = Inr (tr, td) \<and>
       attitude L (Finite 0) (Finite 0) tr td (roll_angle s) = Inr m' \<and>
       posangle L m' (Finite 0) (Finite 0) = Inr tp \<and>
       dither L s x y =
         Returned (s\<lparr>ra := nr, dec := nd, siaf_aperture := m, attitude_matrix := m',
                     tel_ra := Some tr, tel_dec := Some td, tel_roll := Some tp\<rparr>)) \<or>
   (\<exists>nr nd m e.
       idl_to_sky L (siaf_aperture s) x y = Inr (nr, nd) \<and>
       attitude L (v2_ref s) (v3_ref s) nr nd (roll_angle s) = Inr m \<and>
       tel_to_sky L m (Finite 0) (Finite 0) = Inl e \<and>
       dither L s x y = Raised e (s\<lparr>siaf_aperture := m, attitude_matrix := m\<rparr>)) \<or>
   (\<exists>nr nd m tr td e.
       idl_to_sky L (siaf_aperture s) x y = Inr (nr, nd) \<and>
       attitude L (v2_ref s) (v3_ref s) nr nd (roll_angle s) = Inr m \<and>
       tel_to_sky L m (Finite 0) (Finite 0) = Inr (tr, td) \<and>
       attitude L (Finite 0) (Finite 0) tr td (roll_angle s) = Inl e \<and>
       dither L s x y =
         Raised e (s\<lparr>siaf_aperture := m, attitude_matrix := m,
                     tel_ra := Some tr, tel_dec := Some td\<rparr>)) \<or>
   (\<exists>nr nd m tr td m' e.
       idl_to_sky L (siaf_aperture s) x y = Inr (nr, nd) \<and>
       attitude L (v2_ref s) (v3_ref s) nr nd (roll_angle s) = Inr m \<and>
       tel_to_sky L m (Finite 0) (Finite 0) = Inr (tr, td) \<and>
       attitude L (Finite 0) (Finite 0) tr td (roll_angle s) = Inr m' \<and>
       posangle L m' (Finite 0) (Finite 0) = Inl e \<and>
       dither L s x y =
         Raised e (s\<lparr>siaf_aperture := m, attitude_matrix := m',
                     tel_ra := Some tr, tel_dec := Some td\<rparr>))"
  by (auto simp add: Let_def dither_def update_boresight_position_def
      split: sum.splits prod.splits)

text \<open>
  Claim C4 as stated fails: with a library that accepts the offsets, \<open>dither(nan, 0)\<close> on
  \<open>PointWFI(80.0, 30.0, 0.0)\<close> returns, and the instance has changed: its \<open>ra\<close> is NaN.
\<close>

theorem dither_nan_offset_returns:
  "\<not> is_finite NaN \<and>
   Construct flat_library (Some (Finite 80)) (Some (Finite 30)) (Some (Finite 0))
     = Inr (flat_state 80 30) \<and>
   dither flat_library (flat_state 80 30) NaN (Finite 0) = Returned flat_nan_state \<and>
   ra (flat_state 80 30) = Finite 80 \<and> ra flat_nan_state = NaN"
  by (simp add: flat_Construct flat_dither_nan) (simp add: flat_state_def flat_nan_state_def)

end
